theory Spec2Isabelle
  imports Complex_Main
begin

section \<open>Python values and exceptions\<close>

text \<open>
  A Python \<open>str\<close> is a \<open>string\<close>, one \<open>char\<close> for each character, so that \<open>length\<close> is
  Python's \<open>len\<close>. A raw line of the transport (\<open>bytes\<close>) is a \<open>string\<close> too, one \<open>char\<close>
  for each byte.
\<close>

datatype error =
    ConnectionError
  | HTTPError
  | JSONDecodeError
  | UnicodeDecodeError
  | TypeError
  | KeyError
  | IndexError
  | AttributeError
  | RecursionError
  | ValueError

text \<open>
  The values \<open>json.loads\<close> and \<open>response.json()\<close> produce. An object is an association
  list read with \<open>map_of\<close>. A float is a rational: the code only ever asks whether a number
  is zero.
\<close>

datatype json =
    JNull
  | JBool bool
  | JInt int
  | JFloat rat
  | JStr string
  | JArr "json list"
  | JObj "(string \<times> json) list"

text \<open>Python truthiness (\<open>if v:\<close>).\<close>

fun truthy :: "json \<Rightarrow> bool" where
  "truthy JNull = False"
| "truthy (JBool b) = b"
| "truthy (JInt i) = (i \<noteq> 0)"
| "truthy (JFloat r) = (r \<noteq> 0)"
| "truthy (JStr s) = (s \<noteq> [])"
| "truthy (JArr xs) = (xs \<noteq> [])"
| "truthy (JObj kvs) = (kvs \<noteq> [])"

text \<open>\<open>s.startswith(p)\<close>.\<close>

fun startswith :: "string \<Rightarrow> string \<Rightarrow> bool" where
  "startswith s [] = True"
| "startswith [] (p # ps) = False"
| "startswith (c # cs) (p # ps) = (c = p \<and> startswith cs ps)"

text \<open>\<open>p in s\<close> on two strings: \<open>p\<close> occurs in \<open>s\<close> as a contiguous run.\<close>

fun str_contains :: "string \<Rightarrow> string \<Rightarrow> bool" where
  "str_contains [] p = (p = [])"
| "str_contains (c # cs) p = (startswith (c # cs) p \<or> str_contains cs p)"

text \<open>
  \<open>key in v\<close> for a string \<open>key\<close>: a key test on a dict, a membership test on a list, a
  substring test on a string, and \<open>TypeError\<close> on \<open>None\<close>, a bool or a number.
\<close>

fun py_in :: "string \<Rightarrow> json \<Rightarrow> error + bool" where
  "py_in key (JObj kvs) = Inr (map_of kvs key \<noteq> None)"
| "py_in key (JArr xs) = Inr (JStr key \<in> set xs)"
| "py_in key (JStr s) = Inr (str_contains s key)"
| "py_in key v = Inl TypeError"

text \<open>\<open>v[key]\<close> for a string \<open>key\<close>.\<close>

fun getitem :: "json \<Rightarrow> string \<Rightarrow> error + json" where
  "getitem (JObj kvs) key = (case map_of kvs key of None \<Rightarrow> Inl KeyError | Some x \<Rightarrow> Inr x)"
| "getitem v key = Inl TypeError"

text \<open>
  \<open>v[0]\<close>: the first element of a list, the first character of a string, \<open>IndexError\<close>
  when either is empty, \<open>KeyError\<close> on a dict (its keys are strings), \<open>TypeError\<close>
  otherwise.
\<close>

fun getitem0 :: "json \<Rightarrow> error + json" where
  "getitem0 (JArr []) = Inl IndexError"
| "getitem0 (JArr (x # xs)) = Inr x"
| "getitem0 (JStr []) = Inl IndexError"
| "getitem0 (JStr (c # cs)) = Inr (JStr [c])"
| "getitem0 (JObj kvs) = Inl KeyError"
| "getitem0 v = Inl TypeError"

text \<open>\<open>v.get(key, default)\<close>: only a dict has the method.\<close>

fun dict_get :: "json \<Rightarrow> string \<Rightarrow> json \<Rightarrow> error + json" where
  "dict_get (JObj kvs) key dflt = Inr (case map_of kvs key of None \<Rightarrow> dflt | Some x \<Rightarrow> x)"
| "dict_get v key dflt = Inl AttributeError"

text \<open>\<open>sep.join(parts)\<close>.\<close>

fun join :: "string \<Rightarrow> string list \<Rightarrow> string" where
  "join sep [] = []"
| "join sep [x] = x"
| "join sep (x # y # ys) = x @ sep @ join sep (y # ys)"

section \<open>The environment\<close>

text \<open>
  A message of the conversation is a \<open>Dict[str, str]\<close>.
\<close>

type_synonym message = "string \<rightharpoonup> string"

text \<open>\<open>{"role": role, "content": content}\<close>.\<close>

definition mk_message :: "string \<Rightarrow> string \<Rightarrow> message" where
  "mk_message role content = [''role'' \<mapsto> role, ''content'' \<mapsto> content]"

text \<open>The request \<open>requests.post\<close> sends: the headers and the JSON payload.\<close>

record request =
  req_headers :: "(string \<times> string) list"
  req_model :: string
  req_messages :: "message list"
  req_stream :: bool

text \<open>
  The response of the endpoint as the code reads it: the status code, the lines that
  \<open>iter_lines()\<close> delivers, and what \<open>json()\<close> returns (\<open>None\<close> when it raises).
\<close>

record response =
  status_code :: nat
  iter_lines :: "string list"
  json_body :: "json option"

text \<open>
  What the program takes from outside its own source: the optional \<open>tiktoken\<close> module
  (\<open>None\<close> when the import failed; the encoder gives the number of tokens, or \<open>None\<close>
  when it raises), \<open>bytes.decode("utf-8")\<close> (\<open>None\<close> for \<open>UnicodeDecodeError\<close>),
  \<open>json.loads\<close> (the value, or the exception raised: \<open>JSONDecodeError\<close> for a text that
  is not JSON, \<open>RecursionError\<close> for one nested too deep, \<open>ValueError\<close> for an integer
  with too many digits), \<open>str()\<close> of a value that is not a string, \<open>requests.post\<close> (an
  error when the connection fails) and the clock.
\<close>

record env =
  tiktoken :: "(string \<Rightarrow> nat option) option"
  decode_utf8 :: "string \<Rightarrow> string option"
  json_loads :: "string \<Rightarrow> error + json"
  py_str :: "json \<Rightarrow> string"
  post :: "request \<Rightarrow> error + response"
  now :: string

section \<open>Token estimate (perplexity\_cli.py)\<close>

text \<open>
  \<open>count_tokens\<close>, given the \<open>tiktoken\<close> of the environment: the tokenizer when it is
  there and does not raise, else \<open>len(text) // 4\<close>.
\<close>

definition count_tokens :: "(string \<Rightarrow> nat option) option \<Rightarrow> string \<Rightarrow> int" where
  "count_tokens tk text =
     (case tk of
        Some encode \<Rightarrow>
          (case encode text of
             Some n \<Rightarrow> int n
           | None \<Rightarrow> int (length text) div 4)
      | None \<Rightarrow> int (length text) div 4)"

text \<open>\<open>msg.get("content", "")\<close>.\<close>

definition get_content :: "message \<Rightarrow> string" where
  "get_content msg = (case msg ''content'' of None \<Rightarrow> [] | Some c \<Rightarrow> c)"

text \<open>\<open>get_messages_token_count\<close>: the sum over the messages.\<close>

definition get_messages_token_count ::
  "(string \<Rightarrow> nat option) option \<Rightarrow> message list \<Rightarrow> int" where
  "get_messages_token_count tk msgs =
     sum_list (map (\<lambda>msg. count_tokens tk (get_content msg)) msgs)"

section \<open>The API client (api.py)\<close>

text \<open>The object holds the API key (the constructor raises when there is none).\<close>

record api =
  api_key :: string

definition auth_headers :: "api \<Rightarrow> (string \<times> string) list" where
  "auth_headers a =
     [(''accept'', ''application/json''),
      (''content-type'', ''application/json''),
      (''Authorization'', ''Bearer '' @ api_key a)]"

text \<open>
  \<open>response.raise_for_status()\<close> of the requests library raises \<open>HTTPError\<close> for a
  status from 400 to 599.
\<close>

definition raise_for_status :: "response \<Rightarrow> error + unit" where
  "raise_for_status r =
     (if 400 \<le> status_code r \<and> status_code r < 600 then Inl HTTPError else Inr ())"

text \<open>The dict both response handlers return.\<close>

record completion =
  content :: json
  citations :: json

text \<open>
  \<open>"choices" in result and result["choices"]\<close>, as a condition: the second operand is
  evaluated only when the first is true.
\<close>

definition has_choices :: "json \<Rightarrow> error + bool" where
  "has_choices v =
     (case py_in ''choices'' v of
        Inl err \<Rightarrow> Inl err
      | Inr False \<Rightarrow> Inr False
      | Inr True \<Rightarrow>
          (case getitem v ''choices'' of
             Inl err \<Rightarrow> Inl err
           | Inr c \<Rightarrow> Inr (truthy c)))"

text \<open>\<open>v["choices"][0].get(field, {}).get("content", "")\<close>.\<close>

definition first_choice_content :: "string \<Rightarrow> json \<Rightarrow> error + json" where
  "first_choice_content field v =
     (case getitem v ''choices'' of
        Inl err \<Rightarrow> Inl err
      | Inr cs \<Rightarrow>
          (case getitem0 cs of
             Inl err \<Rightarrow> Inl err
           | Inr c \<Rightarrow>
               (case dict_get c field (JObj []) of
                  Inl err \<Rightarrow> Inl err
                | Inr d \<Rightarrow> dict_get d ''content'' (JStr []))))"

text \<open>
  \<open>_sync_response\<close>: post, check the status, read the JSON body, take the content of
  the first choice when there is one, and the citations.
\<close>

definition sync_response :: "env \<Rightarrow> request \<Rightarrow> error + completion" where
  "sync_response e req =
     (case post e req of
        Inl err \<Rightarrow> Inl err
      | Inr resp \<Rightarrow>
          (case raise_for_status resp of
             Inl err \<Rightarrow> Inl err
           | Inr _ \<Rightarrow>
               (case json_body resp of
                  None \<Rightarrow> Inl JSONDecodeError
                | Some result \<Rightarrow>
                    (case has_choices result of
                       Inl err \<Rightarrow> Inl err
                     | Inr b \<Rightarrow>
                         (case (if b then first_choice_content ''message'' result
                                else Inr (JStr [])) of
                            Inl err \<Rightarrow> Inl err
                          | Inr c \<Rightarrow>
                              (case dict_get result ''citations'' (JArr []) of
                                 Inl err \<Rightarrow> Inl err
                               | Inr cits \<Rightarrow>
                                   Inr \<lparr>content = c, citations = cits\<rparr>))))))"

definition summarize_instruction :: string where
  "summarize_instruction =
     ''Summarize the following conversation concisely, preserving key context and facts.''"

text \<open>The request \<open>summarize\<close> builds: the fixed instruction, then the text as a user turn.\<close>

definition summarize_request :: "api \<Rightarrow> string \<Rightarrow> string \<Rightarrow> request" where
  "summarize_request a text mdl =
     \<lparr>req_headers = auth_headers a,
      req_model = mdl,
      req_messages =
        [mk_message ''system'' summarize_instruction, mk_message ''user'' text],
      req_stream = False\<rparr>"

text \<open>
  \<open>summarize\<close>: one non-streaming call; \<open>result.get("content", text)\<close> is the content,
  the key being always there.
\<close>

definition summarize :: "env \<Rightarrow> api \<Rightarrow> string \<Rightarrow> string \<Rightarrow> error + json" where
  "summarize e a text mdl =
     (case sync_response e (summarize_request a text mdl) of
        Inl err \<Rightarrow> Inl err
      | Inr result \<Rightarrow> Inr (content result))"

subsection \<open>The stream decoder\<close>

text \<open>The two variables of \<open>_stream_response\<close>.\<close>

record stream_state =
  cur_citations :: json
  full_content :: string

definition initial_state :: stream_state where
  "initial_state = \<lparr>cur_citations = JArr [], full_content = []\<rparr>"

text \<open>The value returned when the loop is left.\<close>

definition finish :: "stream_state \<Rightarrow> completion" where
  "finish s = \<lparr>content = JStr (full_content s), citations = cur_citations s\<rparr>"

text \<open>
  The body of the \<open>try\<close> for a parsed chunk: the new state and the fragment yielded, if
  any, or the exception that leaves the generator (the handler catches
  \<open>JSONDecodeError\<close> only). A content that is true and not a string raises
  \<open>TypeError\<close> at \<open>full_content += content\<close>.
\<close>

definition process_chunk :: "stream_state \<Rightarrow> json \<Rightarrow> error + (stream_state \<times> string option)" where
  "process_chunk s chunk =
     (case py_in ''citations'' chunk of
        Inl err \<Rightarrow> Inl err
      | Inr has_cit \<Rightarrow>
          (case (if has_cit then getitem chunk ''citations'' else Inr (cur_citations s)) of
             Inl err \<Rightarrow> Inl err
           | Inr cits \<Rightarrow>
               (case has_choices chunk of
                  Inl err \<Rightarrow> Inl err
                | Inr False \<Rightarrow> Inr (s\<lparr>cur_citations := cits\<rparr>, None)
                | Inr True \<Rightarrow>
                    (case first_choice_content ''delta'' chunk of
                       Inl err \<Rightarrow> Inl err
                     | Inr c \<Rightarrow>
                         if truthy c then
                           (case c of
                              JStr t \<Rightarrow>
                                Inr (s\<lparr>cur_citations := cits,
                                       full_content := full_content s @ t\<rparr>, Some t)
                            | _ \<Rightarrow> Inl TypeError)
                         else Inr (s\<lparr>cur_citations := cits\<rparr>, None)))))"

text \<open>
  What one line does to the loop. The line is decoded before the \<open>try\<close>, so a line that
  is not UTF-8 raises; of what \<open>json.loads\<close> raises, the handler catches
  \<open>JSONDecodeError\<close> only.
\<close>

datatype action =
    Continue
  | Break
  | Raise error
  | Update stream_state "string option"

definition process_line :: "env \<Rightarrow> stream_state \<Rightarrow> string \<Rightarrow> action" where
  "process_line e s line =
     (if line = [] then Continue
      else
        (case decode_utf8 e line of
           None \<Rightarrow> Raise UnicodeDecodeError
         | Some line_str \<Rightarrow>
             if \<not> startswith line_str ''data: '' then Continue
             else
               (let json_str = drop 6 line_str in
                if json_str = ''[DONE]'' then Break
                else
                  (case json_loads e json_str of
                     Inl err \<Rightarrow> if err = JSONDecodeError then Continue else Raise err
                   | Inr chunk \<Rightarrow>
                       (case process_chunk s chunk of
                          Inl err \<Rightarrow> Raise err
                        | Inr (s', frag) \<Rightarrow> Update s' frag)))))"

text \<open>
  The loop over the lines. The generator is modelled by what its consumer sees: the
  fragments yielded, in order, and then either the returned dict or the exception that
  ended it (the fragments yielded before an exception stay delivered).
\<close>

fun stream_loop :: "env \<Rightarrow> stream_state \<Rightarrow> string list \<Rightarrow> string list \<times> (error + completion)" where
  "stream_loop e s [] = ([], Inr (finish s))"
| "stream_loop e s (line # rest) =
     (case process_line e s line of
        Continue \<Rightarrow> stream_loop e s rest
      | Break \<Rightarrow> ([], Inr (finish s))
      | Raise err \<Rightarrow> ([], Inl err)
      | Update s' None \<Rightarrow> stream_loop e s' rest
      | Update s' (Some frag) \<Rightarrow>
          (case stream_loop e s' rest of (frags, r) \<Rightarrow> (frag # frags, r)))"

text \<open>\<open>_stream_response\<close>.\<close>

definition stream_response :: "env \<Rightarrow> request \<Rightarrow> string list \<times> (error + completion)" where
  "stream_response e req =
     (case post e req of
        Inl err \<Rightarrow> ([], Inl err)
      | Inr resp \<Rightarrow>
          (case raise_for_status resp of
             Inl err \<Rightarrow> ([], Inl err)
           | Inr _ \<Rightarrow> stream_loop e initial_state (iter_lines resp)))"

section \<open>The session (session.py)\<close>

record session =
  messages :: "message list"
  created_at :: string

definition add_message :: "session \<Rightarrow> string \<Rightarrow> string \<Rightarrow> session" where
  "add_message sess role text = sess\<lparr>messages := messages sess @ [mk_message role text]\<rparr>"

definition get_messages :: "session \<Rightarrow> message list" where
  "get_messages sess = messages sess"

definition clear :: "env \<Rightarrow> session \<Rightarrow> session" where
  "clear e sess = sess\<lparr>messages := [], created_at := now e\<rparr>"

section \<open>Summarizing the history (perplexity\_cli.py)\<close>

record config =
  model :: string
  input_token_limit :: int

text \<open>The three messages \<open>summarize_if_needed\<close> prints.\<close>

datatype console =
    Summarizing
  | Summarized
  | Warning error

text \<open>\<open>m[key]\<close> on a message.\<close>

definition msg_item :: "message \<Rightarrow> string \<Rightarrow> error + string" where
  "msg_item m key = (case m key of None \<Rightarrow> Inl KeyError | Some v \<Rightarrow> Inr v)"

text \<open>
  The lines \<open>f"{m['role']}: {m['content']}"\<close> of the transcript; a message without one of
  the keys raises \<open>KeyError\<close>.
\<close>

fun transcript_lines :: "message list \<Rightarrow> error + string list" where
  "transcript_lines [] = Inr []"
| "transcript_lines (m # ms) =
     (case msg_item m ''role'' of
        Inl err \<Rightarrow> Inl err
      | Inr r \<Rightarrow>
          (case msg_item m ''content'' of
             Inl err \<Rightarrow> Inl err
           | Inr c \<Rightarrow>
               (case transcript_lines ms of
                  Inl err \<Rightarrow> Inl err
                | Inr ls \<Rightarrow> Inr ((r @ '': '' @ c) # ls))))"

text \<open>\<open>summary_text\<close>: the lines joined by a newline.\<close>

definition summary_text :: "message list \<Rightarrow> error + string" where
  "summary_text ms =
     (case transcript_lines ms of
        Inl err \<Rightarrow> Inl err
      | Inr ls \<Rightarrow> Inr (join [CHR 0x0A] ls))"

text \<open>
  The loop \<open>for msg in to_keep: self.session.add_message(msg["role"], msg["content"])\<close>:
  the session reached, and the exception if one stopped the loop.
\<close>

fun readd :: "session \<Rightarrow> message list \<Rightarrow> session \<times> error option" where
  "readd sess [] = (sess, None)"
| "readd sess (m # ms) =
     (case msg_item m ''role'' of
        Inl err \<Rightarrow> (sess, Some err)
      | Inr r \<Rightarrow>
          (case msg_item m ''content'' of
             Inl err \<Rightarrow> (sess, Some err)
           | Inr c \<Rightarrow> readd (add_message sess r c) ms))"

text \<open>\<open>f"{summary}"\<close>: a string as it is, anything else through \<open>str()\<close>.\<close>

definition format_value :: "env \<Rightarrow> json \<Rightarrow> string" where
  "format_value e v = (case v of JStr s \<Rightarrow> s | _ \<Rightarrow> py_str e v)"

definition summary_prefix :: string where
  "summary_prefix = ''Previous conversation summary: ''"

text \<open>
  \<open>summarize_if_needed\<close>: the session after the call, what was printed, and the
  exception that left the function, if any. The transcript is built before the \<open>try\<close>, so
  its \<open>KeyError\<close> leaves the function; everything raised inside the \<open>try\<close> is printed as
  a warning.
\<close>

definition summarize_if_needed ::
  "env \<Rightarrow> api \<Rightarrow> config \<Rightarrow> session \<Rightarrow> session \<times> console list \<times> error option" where
  "summarize_if_needed e a cfg sess =
     (let msgs = get_messages sess;
          token_count = get_messages_token_count (tiktoken e) msgs
      in
        if token_count > input_token_limit cfg \<and> length msgs > 4 then
          (let to_summarize = take (length msgs - 4) msgs;
               to_keep = drop (length msgs - 4) msgs
           in
             case summary_text to_summarize of
               Inl err \<Rightarrow> (sess, [Summarizing], Some err)
             | Inr text \<Rightarrow>
                 (case summarize e a text (model cfg) of
                    Inl err \<Rightarrow> (sess, [Summarizing, Warning err], None)
                  | Inr summary \<Rightarrow>
                      (case readd
                              (add_message (clear e sess) ''system''
                                 (summary_prefix @ format_value e summary))
                              to_keep of
                         (sess', Some err) \<Rightarrow> (sess', [Summarizing, Warning err], None)
                       | (sess', None) \<Rightarrow> (sess', [Summarizing, Summarized], None))))
        else (sess, [], None))"

section \<open>The notions of the specification\<close>

text \<open>
  The specification sorts the lines of a stream into kinds. A line is a sentinel when it
  is not empty, decodes, starts with the marker and its payload is \<open>[DONE]\<close>.
\<close>

definition is_sentinel :: "env \<Rightarrow> string \<Rightarrow> bool" where
  "is_sentinel e line =
     (line \<noteq> [] \<and>
      (case decode_utf8 e line of
         None \<Rightarrow> False
       | Some t \<Rightarrow> startswith t ''data: '' \<and> drop 6 t = ''[DONE]''))"

text \<open>
  Noise as the specification words it: a blank line, a raw line that does not start with
  the marker, or a line with the marker whose payload is left for the parser (it is not
  the sentinel) and fails to parse, with whatever exception.
\<close>

definition stated_noise :: "env \<Rightarrow> string \<Rightarrow> bool" where
  "stated_noise e line =
     (line = [] \<or> \<not> startswith line ''data: '' \<or>
      (case decode_utf8 e line of
         None \<Rightarrow> False
       | Some t \<Rightarrow>
           drop 6 t \<noteq> ''[DONE]'' \<and>
           (case json_loads e (drop 6 t) of Inl err \<Rightarrow> True | Inr v \<Rightarrow> False)))"

text \<open>
  Noise as the decoder skips it: a blank line, a line that decodes as UTF-8 to a text
  that does not start with the marker, or a line with the marker whose payload is left
  for the parser (it is not the sentinel) and makes it raise \<open>JSONDecodeError\<close>.
\<close>

definition noise :: "env \<Rightarrow> string \<Rightarrow> bool" where
  "noise e line =
     (line = [] \<or>
      (case decode_utf8 e line of
         None \<Rightarrow> False
       | Some t \<Rightarrow>
           \<not> startswith t ''data: '' \<or>
           (drop 6 t \<noteq> ''[DONE]'' \<and> json_loads e (drop 6 t) = Inl JSONDecodeError)))"

text \<open>The payload of a line that reaches the parser, and the event record it parses to.\<close>

definition payload :: "env \<Rightarrow> string \<Rightarrow> string option" where
  "payload e line =
     (if line = [] then None
      else
        (case decode_utf8 e line of
           None \<Rightarrow> None
         | Some t \<Rightarrow>
             if startswith t ''data: '' \<and> drop 6 t \<noteq> ''[DONE]'' then Some (drop 6 t)
             else None))"

definition line_chunk :: "env \<Rightarrow> string \<Rightarrow> json option" where
  "line_chunk e line =
     (case payload e line of
        None \<Rightarrow> None
      | Some p \<Rightarrow> (case json_loads e p of Inl err \<Rightarrow> None | Inr c \<Rightarrow> Some c))"

text \<open>The \<open>citations\<close> field of an event record, and of the event of a line.\<close>

definition chunk_citations :: "json \<Rightarrow> json option" where
  "chunk_citations c = (case c of JObj kvs \<Rightarrow> map_of kvs ''citations'' | _ \<Rightarrow> None)"

definition line_citations :: "env \<Rightarrow> string \<Rightarrow> json option" where
  "line_citations e line =
     (case line_chunk e line of None \<Rightarrow> None | Some c \<Rightarrow> chunk_citations c)"

text \<open>
  A well-formed event, after the specification's description of the endpoint: a JSON
  object that may carry \<open>choices[0].delta.content\<close>, that is, \<open>choices\<close> is absent or an
  array, its first element is an object, \<open>delta\<close> is absent or an object, and \<open>content\<close>
  is absent, null or a string.
\<close>

definition wf_delta :: "json \<Rightarrow> bool" where
  "wf_delta d =
     (case d of
        JObj kvs \<Rightarrow>
          (case map_of kvs ''content'' of
             None \<Rightarrow> True
           | Some (JStr t) \<Rightarrow> True
           | Some JNull \<Rightarrow> True
           | Some _ \<Rightarrow> False)
      | _ \<Rightarrow> False)"

definition wf_choice :: "json \<Rightarrow> bool" where
  "wf_choice c =
     (case c of
        JObj kvs \<Rightarrow> (case map_of kvs ''delta'' of None \<Rightarrow> True | Some d \<Rightarrow> wf_delta d)
      | _ \<Rightarrow> False)"

definition wf_event :: "json \<Rightarrow> bool" where
  "wf_event v =
     (case v of
        JObj kvs \<Rightarrow>
          (case map_of kvs ''choices'' of
             None \<Rightarrow> True
           | Some (JArr []) \<Rightarrow> True
           | Some (JArr (c # cs)) \<Rightarrow> wf_choice c
           | Some _ \<Rightarrow> False)
      | _ \<Rightarrow> False)"

text \<open>A line of a well-formed stream: noise, the sentinel, or a well-formed event.\<close>

definition wf_line :: "env \<Rightarrow> string \<Rightarrow> bool" where
  "wf_line e line =
     (noise e line \<or> is_sentinel e line \<or>
      (case line_chunk e line of None \<Rightarrow> False | Some c \<Rightarrow> wf_event c))"

section \<open>Example values\<close>

text \<open>The lines of a short stream, and a parser that knows their payloads.\<close>

definition hel_line :: string where
  \<open>hel_line = ''data: {"choices":[{"delta":{"content":"Hel"}}]}''\<close>

definition lo_line :: string where
  \<open>lo_line = ''data: {"choices":[{"delta":{"content":"lo"}}]}''\<close>

definition cit_a_line :: string where
  \<open>cit_a_line = ''data: {"citations":["a"]}''\<close>

definition cit_b_line :: string where
  \<open>cit_b_line = ''data: {"citations":["b"]}''\<close>

definition done_line :: string where
  "done_line = ''data: [DONE]''"

definition delta_event :: "string \<Rightarrow> json" where
  "delta_event t = JObj [(''choices'', JArr [JObj [(''delta'', JObj [(''content'', JStr t)])]])]"

definition ex_loads :: "string \<Rightarrow> error + json" where
  \<open>ex_loads p =
     (if p = ''{"choices":[{"delta":{"content":"Hel"}}]}'' then Inr (delta_event ''Hel'')
      else if p = ''{"choices":[{"delta":{"content":"lo"}}]}'' then Inr (delta_event ''lo'')
      else if p = ''{"citations":["a"]}'' then Inr (JObj [(''citations'', JArr [JStr ''a''])])
      else if p = ''{"citations":["b"]}'' then Inr (JObj [(''citations'', JArr [JStr ''b''])])
      else Inl JSONDecodeError)\<close>

text \<open>
  An environment without a tokenizer, where every line decodes to itself, around a given
  endpoint.
\<close>

definition ex_env :: "(request \<Rightarrow> error + response) \<Rightarrow> env" where
  "ex_env p =
     \<lparr>tiktoken = None, decode_utf8 = Some, json_loads = ex_loads,
      py_str = (\<lambda>v. ''None''), post = p, now = ''2024-01-01T00:00:00''\<rparr>"

definition ok_response :: "string list \<Rightarrow> json option \<Rightarrow> response" where
  "ok_response ls body = \<lparr>status_code = 200, iter_lines = ls, json_body = body\<rparr>"

definition ex_api :: api where
  "ex_api = \<lparr>api_key = ''key''\<rparr>"

definition ex_request :: request where
  "ex_request =
     \<lparr>req_headers = auth_headers ex_api, req_model = ''sonar-pro'',
      req_messages = [mk_message ''user'' ''Hi''], req_stream = True\<rparr>"

text \<open>Six messages of eight characters each: two tokens each, twelve in all.\<close>

definition ex_stale :: "message list" where
  "ex_stale = [mk_message ''user'' ''question'', mk_message ''assistant'' ''answer 1'']"

definition ex_recent :: "message list" where
  "ex_recent =
     [mk_message ''user'' ''followup'', mk_message ''assistant'' ''answer 2'',
      mk_message ''user'' ''and then'', mk_message ''assistant'' ''answer 3'']"

definition ex_session :: "message list \<Rightarrow> session" where
  "ex_session ms = \<lparr>messages = ms, created_at = ''2023-12-31T23:59:59''\<rparr>"

definition ex_config :: "int \<Rightarrow> config" where
  "ex_config limit = \<lparr>model = ''sonar-pro'', input_token_limit = limit\<rparr>"

text \<open>A summarization response with a summary, and one with no choices.\<close>

definition summary_body :: json where
  "summary_body =
     JObj [(''choices'', JArr [JObj [(''message'', JObj [(''content'', JStr ''They talked.'')])]])]"

definition no_choices_body :: json where
  "no_choices_body = JObj [(''citations'', JArr [JStr ''a''])]"

text \<open>Endpoints: a stream, a connection that fails, a summary, a response with no choices.\<close>

definition hello_env :: env where
  "hello_env = ex_env (\<lambda>req. Inr (ok_response [hel_line, lo_line, done_line] None))"

definition offline_env :: env where
  "offline_env = ex_env (\<lambda>req. Inl ConnectionError)"

definition summary_env :: env where
  "summary_env = ex_env (\<lambda>req. Inr (ok_response [] (Some summary_body)))"

definition no_choices_env :: env where
  "no_choices_env = ex_env (\<lambda>req. Inr (ok_response [] (Some no_choices_body)))"

text \<open>
  An environment that tells more of the decoder and of the parser: a line with the byte
  \<open>0xFF\<close>, which no UTF-8 text contains, does not decode, and a payload of 995 opening
  brackets exceeds the recursion limit of \<open>json.loads\<close>.
\<close>

definition bad_byte_line :: string where
  "bad_byte_line = [CHR 0xFF]"

definition deep_payload :: string where
  "deep_payload = replicate 995 (CHR ''['')"

definition deep_line :: string where
  "deep_line = ''data: '' @ deep_payload"

definition strict_decode :: "string \<Rightarrow> string option" where
  "strict_decode line = (if CHR 0xFF \<in> set line then None else Some line)"

definition strict_loads :: "string \<Rightarrow> error + json" where
  "strict_loads p = (if p = deep_payload then Inl RecursionError else ex_loads p)"

definition strict_env :: env where
  "strict_env = hello_env\<lparr>decode_utf8 := strict_decode, json_loads := strict_loads\<rparr>"

section \<open>The token estimate\<close>

lemma floor_quarter: "\<lfloor>real n / 4\<rfloor> = int n div 4"
  using floor_divide_of_nat_eq [of n 4, where ?'a = real] by (simp add: zdiv_int)

text \<open>
  C1, as stated, fails: without a tokenizer the estimate of the three-character text
  \<open>abc\<close> is 0, and the ceiling of 3/4 is 1.
\<close>

theorem count_tokens_ceiling_counterexample:
  "count_tokens None ''abc'' \<noteq> \<lceil>real (length ''abc'') / 4\<rceil>"
  by (simp add: count_tokens_def)

text \<open>
  C1, amended: without a tokenizer the estimate of a text of length \<open>L\<close> is the floor of
  \<open>L / 4\<close>, and the count of a message list is the sum of that estimate over the
  contents of its messages (the empty text for a message without content).
\<close>

theorem count_tokens_fallback_floor:
  "count_tokens None text = \<lfloor>real (length text) / 4\<rfloor> \<and>
   get_messages_token_count None msgs =
     (\<Sum>m\<leftarrow>msgs. \<lfloor>real (length (get_content m)) / 4\<rfloor>)"
  by (simp add: get_messages_token_count_def count_tokens_def floor_quarter)

section \<open>The stream decoder\<close>

subsection \<open>What each kind of line does\<close>

lemma process_line_noise: "noise e line \<Longrightarrow> process_line e s line = Continue"
  by (auto simp: noise_def process_line_def Let_def split: option.splits)

lemma process_line_sentinel: "is_sentinel e line \<Longrightarrow> process_line e s line = Break"
  by (auto simp: is_sentinel_def process_line_def Let_def split: option.splits)

lemma process_line_chunk:
  "line_chunk e line = Some c \<Longrightarrow>
   process_line e s line =
     (case process_chunk s c of Inl err \<Rightarrow> Raise err | Inr (s', frag) \<Rightarrow> Update s' frag)"
  by (auto simp: line_chunk_def payload_def process_line_def Let_def
      split: option.splits if_splits sum.splits)

lemma process_line_undecodable:
  "line \<noteq> [] \<Longrightarrow> decode_utf8 e line = None \<Longrightarrow> process_line e s line = Raise UnicodeDecodeError"
  by (simp add: process_line_def)

lemma process_line_Break:
  "process_line e s l = Break \<Longrightarrow> is_sentinel e l"
  by (auto simp: process_line_def is_sentinel_def Let_def split: option.splits if_splits sum.splits)

lemma process_line_parser_raises:
  "payload e line = Some p \<Longrightarrow> json_loads e p = Inl err \<Longrightarrow> err \<noteq> JSONDecodeError \<Longrightarrow>
   process_line e s line = Raise err"
  by (auto simp: payload_def process_line_def Let_def split: option.splits if_splits)

lemma line_kinds:
  "noise e line \<or> is_sentinel e line \<or> decode_utf8 e line = None \<and> line \<noteq> [] \<or>
   (\<exists>c. line_chunk e line = Some c) \<or>
   (\<exists>p err. payload e line = Some p \<and> json_loads e p = Inl err \<and> err \<noteq> JSONDecodeError)"
  by (auto simp: noise_def is_sentinel_def line_chunk_def payload_def split: option.splits sum.splits)

subsection \<open>Fragments and accumulated content\<close>

lemma process_chunk_content:
  "process_chunk s c = Inr (s', frag) \<Longrightarrow>
   full_content s' = full_content s @ (case frag of None \<Rightarrow> [] | Some t \<Rightarrow> t) \<and> frag \<noteq> Some []"
  by (auto simp: process_chunk_def split: sum.splits bool.splits if_splits json.splits)

lemma wf_delta_content:
  "wf_delta d \<Longrightarrow>
   dict_get d ''content'' (JStr []) = Inr JNull \<or> (\<exists>t. dict_get d ''content'' (JStr []) = Inr (JStr t))"
proof -
  assume wf: "wf_delta d"
  then obtain kvs where d: "d = JObj kvs" by (cases d) (simp_all add: wf_delta_def)
  show ?thesis
  proof (cases "map_of kvs ''content''")
    case None
    then show ?thesis by (simp add: d)
  next
    case (Some v)
    with wf d show ?thesis by (cases v) (simp_all add: wf_delta_def)
  qed
qed

lemma wf_choice_content:
  "wf_choice c \<Longrightarrow>
   \<exists>d. dict_get c ''delta'' (JObj []) = Inr d \<and> wf_delta d"
proof -
  assume wf: "wf_choice c"
  then obtain kvs where c: "c = JObj kvs" by (cases c) (simp_all add: wf_choice_def)
  show ?thesis
  proof (cases "map_of kvs ''delta''")
    case None
    then show ?thesis by (simp add: c wf_delta_def)
  next
    case (Some v)
    with wf c show ?thesis by (simp add: wf_choice_def)
  qed
qed

lemma first_choice_wf:
  assumes "map_of kvs ''choices'' = Some (JArr (c # cs))" and "wf_choice c"
  shows "first_choice_content ''delta'' (JObj kvs) = Inr JNull \<or>
         (\<exists>t. first_choice_content ''delta'' (JObj kvs) = Inr (JStr t))"
proof -
  from wf_choice_content [OF assms(2)] obtain d
    where d: "dict_get c ''delta'' (JObj []) = Inr d" "wf_delta d" by blast
  from wf_delta_content [OF d(2)] show ?thesis
    using assms(1) d(1) by (auto simp: first_choice_content_def)
qed

lemma has_choices_obj:
  "has_choices (JObj kvs) = Inr (case map_of kvs ''choices'' of None \<Rightarrow> False | Some c \<Rightarrow> truthy c)"
  by (auto simp: has_choices_def split: option.splits)

lemma process_chunk_wf:
  assumes "wf_event c"
  shows "\<exists>s' frag. process_chunk s c = Inr (s', frag)"
proof -
  from assms obtain kvs where c: "c = JObj kvs"
    by (auto simp: wf_event_def split: json.splits)
  obtain cits where cits:
    "(if map_of kvs ''citations'' \<noteq> None then getitem (JObj kvs) ''citations''
      else Inr (cur_citations s)) = Inr cits"
    by (cases "map_of kvs ''citations''") auto
  show ?thesis
  proof (cases "map_of kvs ''choices''")
    case None
    then show ?thesis using cits
      by (simp add: c process_chunk_def has_choices_obj)
  next
    case (Some ch)
    with assms c have "ch = JArr [] \<or> (\<exists>x xs. ch = JArr (x # xs) \<and> wf_choice x)"
      by (auto simp: wf_event_def split: json.splits list.splits)
    then show ?thesis
    proof
      assume "ch = JArr []"
      then show ?thesis using cits Some
        by (simp add: c process_chunk_def has_choices_obj)
    next
      assume "\<exists>x xs. ch = JArr (x # xs) \<and> wf_choice x"
      then obtain x xs where ch: "ch = JArr (x # xs)" and x: "wf_choice x" by blast
      from first_choice_wf [OF Some [unfolded ch] x]
      show ?thesis using cits Some ch
        by (auto simp: c process_chunk_def has_choices_obj)
    qed
  qed
qed

lemma stream_loop_content:
  "stream_loop e s ls = (frags, r) \<Longrightarrow>
   (\<forall>f \<in> set frags. f \<noteq> []) \<and>
   (\<forall>c. r = Inr c \<longrightarrow> content c = JStr (full_content s @ concat frags))"
proof (induction ls arbitrary: s frags r)
  case Nil
  then show ?case by (auto simp: finish_def)
next
  case (Cons l ls)
  show ?case
  proof (cases "process_line e s l")
    case Continue
    with Cons show ?thesis by simp
  next
    case Break
    with Cons show ?thesis by (auto simp: finish_def)
  next
    case (Raise err)
    with Cons show ?thesis by auto
  next
    case (Update s' frag)
    then have pc: "full_content s' = full_content s @ (case frag of None \<Rightarrow> [] | Some t \<Rightarrow> t) \<and> frag \<noteq> Some []"
      using process_chunk_content [of s _ s' frag]
      by (auto simp: process_line_def Let_def split: option.splits if_splits sum.splits)
    show ?thesis
    proof (cases frag)
      case None
      with Cons Update pc show ?thesis by simp
    next
      case (Some t)
      obtain fs r' where rest: "stream_loop e s' ls = (fs, r')" by (cases "stream_loop e s' ls")
      with Cons.prems Update Some have fr: "frags = t # fs" "r = r'" by auto
      from Cons.IH [OF rest] pc Some fr show ?thesis by auto
    qed
  qed
qed

lemma stream_loop_wf:
  "\<forall>l \<in> set ls. wf_line e l \<Longrightarrow> \<exists>frags c. stream_loop e s ls = (frags, Inr c)"
proof (induction ls arbitrary: s)
  case Nil
  then show ?case by simp
next
  case (Cons l ls)
  then have wl: "wf_line e l" and rest: "\<forall>l \<in> set ls. wf_line e l" by auto
  from wl consider "noise e l" | "is_sentinel e l" | c where "line_chunk e l = Some c" "wf_event c"
    by (auto simp: wf_line_def split: option.splits)
  then show ?case
  proof cases
    case 1
    then show ?thesis using Cons.IH [OF rest, of s] by (simp add: process_line_noise)
  next
    case 2
    then show ?thesis by (simp add: process_line_sentinel)
  next
    case 3
    from process_chunk_wf [OF 3(2), of s] obtain s' frag where pc: "process_chunk s c = Inr (s', frag)"
      by blast
    from Cons.IH [OF rest, of s'] obtain fs r where "stream_loop e s' ls = (fs, Inr r)" by blast
    then show ?thesis using pc 3(1)
      by (cases frag) (simp_all add: process_line_chunk)
  qed
qed

text \<open>
  C5: when the endpoint answers with a success status and every line of the stream is
  well-formed, \<open>_stream_response\<close> returns a result (it does not raise), the content of
  the result is the concatenation of the fragments yielded, in order, and no fragment is
  empty. The stream need not end in the sentinel: the end of the transport does as well.
\<close>

theorem stream_content_is_concat_of_fragments:
  assumes "post e req = Inr resp" and "raise_for_status resp = Inr ()"
    and "\<forall>l \<in> set (iter_lines resp). wf_line e l"
  shows "\<exists>frags r. stream_response e req = (frags, Inr r) \<and>
           content r = JStr (concat frags) \<and> (\<forall>f \<in> set frags. f \<noteq> [])"
proof -
  from stream_loop_wf [OF assms(3), of initial_state] obtain frags r
    where run: "stream_loop e initial_state (iter_lines resp) = (frags, Inr r)" by blast
  from stream_loop_content [OF run]
  have "content r = JStr (concat frags)" and "\<forall>f \<in> set frags. f \<noteq> []"
    by (simp_all add: initial_state_def)
  with run assms(1,2) show ?thesis by (simp add: stream_response_def)
qed

lemmas decoder_defs =
  process_line_def process_chunk_def has_choices_def first_choice_content_def
  finish_def initial_state_def Let_def

lemmas example_defs =
  ex_env_def ex_loads_def delta_event_def hel_line_def lo_line_def done_line_def
  cit_a_line_def cit_b_line_def ok_response_def

lemmas kind_defs =
  wf_line_def noise_def is_sentinel_def line_chunk_def payload_def
  wf_event_def wf_choice_def wf_delta_def

text \<open>
  The first scenario of the specification: the lines with \<open>Hel\<close> and \<open>lo\<close>, then the
  sentinel, give the fragments \<open>Hel\<close> and \<open>lo\<close>, the content \<open>Hello\<close> and no citations.
\<close>

theorem stream_content_is_concat_of_fragments_witness:
  "wf_line hello_env hel_line \<and> wf_line hello_env lo_line \<and> wf_line hello_env done_line \<and>
   stream_response hello_env ex_request =
     ([''Hel'', ''lo''], Inr \<lparr>content = JStr ''Hello'', citations = JArr []\<rparr>)"
proof -
  let ?resp = "ok_response [hel_line, lo_line, done_line] None"
  have p: "post hello_env ex_request = Inr ?resp"
    by (simp add: hello_env_def ex_env_def)
  have st: "raise_for_status ?resp = Inr ()"
    by (simp add: raise_for_status_def ok_response_def)
  have w: "wf_line hello_env hel_line" "wf_line hello_env lo_line" "wf_line hello_env done_line"
    by (simp_all add: hello_env_def kind_defs example_defs)
  then have all: "\<forall>l \<in> set (iter_lines ?resp). wf_line hello_env l"
    by (simp add: ok_response_def)
  have run: "stream_response hello_env ex_request =
      ([''Hel'', ''lo''], Inr \<lparr>content = JStr ''Hello'', citations = JArr []\<rparr>)"
    by (simp add: stream_response_def hello_env_def raise_for_status_def decoder_defs example_defs)
  from stream_content_is_concat_of_fragments [OF p st all] w run show ?thesis by simp
qed

subsection \<open>Citations\<close>

lemma process_chunk_citations:
  "process_chunk s c = Inr (s', frag) \<Longrightarrow>
   cur_citations s' = (case chunk_citations c of None \<Rightarrow> cur_citations s | Some v \<Rightarrow> v)"
proof (cases c)
  case (JObj kvs)
  assume "process_chunk s c = Inr (s', frag)"
  then show ?thesis unfolding JObj
    by (cases "map_of kvs ''citations''")
       (auto simp: process_chunk_def chunk_citations_def split: sum.splits bool.splits if_splits json.splits)
qed (auto simp: process_chunk_def chunk_citations_def split: sum.splits bool.splits if_splits json.splits)

lemma process_line_citations:
  "process_line e s l = Update s' frag \<Longrightarrow>
   cur_citations s' = (case line_citations e l of None \<Rightarrow> cur_citations s | Some v \<Rightarrow> v)"
proof -
  assume u: "process_line e s l = Update s' frag"
  from line_kinds [of e l] show ?thesis
  proof (elim disjE exE conjE)
    assume "noise e l" with u show ?thesis by (simp add: process_line_noise)
  next
    assume "is_sentinel e l" with u show ?thesis by (simp add: process_line_sentinel)
  next
    assume "decode_utf8 e l = None" "l \<noteq> []" with u show ?thesis by (simp add: process_line_undecodable)
  next
    fix p err
    assume "payload e l = Some p" "json_loads e p = Inl err" "err \<noteq> JSONDecodeError"
    from process_line_parser_raises [OF this] u show ?thesis by simp
  next
    fix c assume c: "line_chunk e l = Some c"
    with u have "process_chunk s c = Inr (s', frag)"
      by (auto simp: process_line_chunk split: sum.splits)
    from process_chunk_citations [OF this] c show ?thesis by (simp add: line_citations_def)
  qed
qed

lemma line_citations_Some:
  "line_citations e l = Some B \<Longrightarrow> \<exists>c. line_chunk e l = Some c \<and> chunk_citations c = Some B"
  by (cases "line_chunk e l") (simp_all add: line_citations_def)

lemma stream_loop_keeps_citations:
  "\<forall>l \<in> set ys. line_citations e l = None \<Longrightarrow> stream_loop e s ys = (frags, Inr r) \<Longrightarrow>
   citations r = cur_citations s"
proof (induction ys arbitrary: s frags)
  case Nil
  then show ?case by (auto simp: finish_def)
next
  case (Cons l ls)
  show ?case
  proof (cases "process_line e s l")
    case Continue
    with Cons show ?thesis by simp
  next
    case Break
    with Cons show ?thesis by (auto simp: finish_def)
  next
    case (Raise err)
    with Cons show ?thesis by simp
  next
    case (Update s' frag)
    from process_line_citations [OF Update] Cons.prems(1)
    have same: "cur_citations s' = cur_citations s" by simp
    obtain fs r' where rest: "stream_loop e s' ls = (fs, r')" by (cases "stream_loop e s' ls")
    with Cons.prems(2) Update have "r' = Inr r" by (cases frag) auto
    with Cons.IH [of s' fs] rest Cons.prems(1) same show ?thesis by simp
  qed
qed

text \<open>
  C6: the last citations field wins. When a stream runs to a result, a line \<open>lb\<close> whose
  event carries the citations \<open>B\<close> is reached (no sentinel stands before it) and no later
  line carries citations, the citations of the result are \<open>B\<close>, whatever citations the
  events before \<open>lb\<close> carried: each field replaces the list, none is added to it.
\<close>

theorem citations_last_write_wins:
  "stream_loop e s (xs @ lb # ys) = (frags, Inr r) \<Longrightarrow>
   \<forall>l \<in> set xs. \<not> is_sentinel e l \<Longrightarrow>
   line_citations e lb = Some B \<Longrightarrow>
   \<forall>l \<in> set ys. line_citations e l = None \<Longrightarrow>
   citations r = B"
proof (induction xs arbitrary: s frags)
  case Nil
  from line_citations_Some [OF Nil(3)] obtain c
    where c: "line_chunk e lb = Some c" by blast
  show ?case
  proof (cases "process_chunk s c")
    case (Inl err)
    with Nil(1) c show ?thesis by (simp add: process_line_chunk)
  next
    case (Inr p)
    obtain s' frag where p: "p = (s', frag)" by (cases p)
    with Inr c have Update: "process_line e s lb = Update s' frag"
      by (simp add: process_line_chunk)
    from process_line_citations [OF Update] Nil(3)
    have B: "cur_citations s' = B" by simp
    obtain fs r' where rest: "stream_loop e s' ys = (fs, r')" by (cases "stream_loop e s' ys")
    with Nil(1) Update have "r' = Inr r" by (cases frag) auto
    with stream_loop_keeps_citations [OF Nil(4), of s' fs r] rest B show ?thesis by simp
  qed
next
  case (Cons x xs)
  from Cons.prems(2) have nx: "\<not> is_sentinel e x" and nxs: "\<forall>l \<in> set xs. \<not> is_sentinel e l" by auto
  show ?case
  proof (cases "process_line e s x")
    case Continue
    with Cons.prems(1) have "stream_loop e s (xs @ lb # ys) = (frags, Inr r)" by simp
    from Cons.IH [OF this nxs Cons.prems(3,4)] show ?thesis .
  next
    case Break
    from process_line_Break [OF Break] nx show ?thesis by simp
  next
    case (Raise err)
    with Cons.prems(1) show ?thesis by simp
  next
    case (Update s' frag)
    obtain fs r' where rest: "stream_loop e s' (xs @ lb # ys) = (fs, r')"
      by (cases "stream_loop e s' (xs @ lb # ys)")
    with Cons.prems(1) Update have "r' = Inr r" by (cases frag) auto
    with rest Cons.IH [of s' fs, OF _ nxs Cons.prems(3,4)] show ?thesis by simp
  qed
qed

text \<open>Citations \<open>["a"]\<close>, then \<open>["b"]\<close>, then the sentinel: the result has \<open>["b"]\<close>.\<close>

theorem citations_last_write_wins_witness:
  "line_citations hello_env cit_a_line = Some (JArr [JStr ''a'']) \<and>
   line_citations hello_env cit_b_line = Some (JArr [JStr ''b'']) \<and>
   \<not> is_sentinel hello_env cit_a_line \<and>
   line_citations hello_env done_line = None \<and>
   stream_loop hello_env initial_state ([cit_a_line] @ cit_b_line # [done_line]) =
     ([], Inr \<lparr>content = JStr [], citations = JArr [JStr ''b'']\<rparr>) \<and>
   citations \<lparr>content = JStr [], citations = JArr [JStr ''b'']\<rparr> = JArr [JStr ''b'']"
proof -
  have a: "line_citations hello_env cit_a_line = Some (JArr [JStr ''a''])"
    and b: "line_citations hello_env cit_b_line = Some (JArr [JStr ''b''])"
    and d: "line_citations hello_env done_line = None"
    by (simp_all add: hello_env_def line_citations_def chunk_citations_def kind_defs example_defs)
  have ns: "\<forall>l \<in> set [cit_a_line]. \<not> is_sentinel hello_env l"
    by (simp add: hello_env_def kind_defs example_defs)
  have nc: "\<forall>l \<in> set [done_line]. line_citations hello_env l = None"
    using d by simp
  have run: "stream_loop hello_env initial_state ([cit_a_line] @ cit_b_line # [done_line]) =
      ([], Inr \<lparr>content = JStr [], citations = JArr [JStr ''b'']\<rparr>)"
    by (simp add: hello_env_def decoder_defs example_defs)
  from citations_last_write_wins [OF run ns b nc] a b d ns run show ?thesis by simp
qed

subsection \<open>Noise and the sentinel\<close>

lemma not_deep_payload: "length p \<noteq> 995 \<Longrightarrow> (p = deep_payload) = False"
  by (auto simp: deep_payload_def)

lemma deep_payload_facts:
  "deep_payload \<noteq> ''[DONE]''" "CHR 0xFF \<notin> set deep_payload"
proof -
  show "deep_payload \<noteq> ''[DONE]''"
  proof
    assume "deep_payload = ''[DONE]''"
    then have "length deep_payload = length ''[DONE]''" by (rule arg_cong)
    then show False by (simp add: deep_payload_def)
  qed
  show "CHR 0xFF \<notin> set deep_payload" by (simp add: deep_payload_def)
qed

lemma strict_env_fields:
  "decode_utf8 strict_env = strict_decode" "json_loads strict_env = strict_loads"
  by (simp_all add: strict_env_def)

lemma strict_lines:
  "process_line strict_env s bad_byte_line = Raise UnicodeDecodeError"
  "process_line strict_env s deep_line = Raise RecursionError"
  "process_line strict_env s done_line = Break"
  by (simp_all add: process_line_def strict_env_fields strict_decode_def strict_loads_def
      bad_byte_line_def deep_line_def done_line_def not_deep_payload deep_payload_facts Let_def)

lemma strict_events:
  "process_line strict_env s hel_line = Update (s\<lparr>full_content := full_content s @ ''Hel''\<rparr>) (Some ''Hel'')"
  "process_line strict_env s lo_line = Update (s\<lparr>full_content := full_content s @ ''lo''\<rparr>) (Some ''lo'')"
  by (simp_all add: process_line_def process_chunk_def has_choices_def first_choice_content_def
      strict_env_fields strict_decode_def strict_loads_def not_deep_payload Let_def
      ex_loads_def delta_event_def hel_line_def lo_line_def)

text \<open>
  C7, as stated, fails. A raw line of the single byte \<open>0xFF\<close> does not start with the
  marker, and a line with the marker and a payload of 995 opening brackets fails to parse;
  put after the first event of the first scenario, the one ends the stream with
  \<open>UnicodeDecodeError\<close> and the other with \<open>RecursionError\<close>, after the fragment \<open>Hel\<close>,
  where the stream without them gives \<open>Hel\<close>, \<open>lo\<close> and a result.
\<close>

theorem noise_aborts_counterexample:
  "stated_noise strict_env bad_byte_line \<and> stated_noise strict_env deep_line \<and>
   stream_loop strict_env initial_state [hel_line, lo_line, done_line] =
     ([''Hel'', ''lo''], Inr \<lparr>content = JStr ''Hello'', citations = JArr []\<rparr>) \<and>
   stream_loop strict_env initial_state [hel_line, bad_byte_line, lo_line, done_line] =
     ([''Hel''], Inl UnicodeDecodeError) \<and>
   stream_loop strict_env initial_state [hel_line, deep_line, lo_line, done_line] =
     ([''Hel''], Inl RecursionError)"
proof -
  have "stated_noise strict_env bad_byte_line"
    by (simp add: stated_noise_def bad_byte_line_def)
  moreover have "stated_noise strict_env deep_line"
    by (simp add: stated_noise_def deep_line_def strict_env_fields strict_decode_def
        strict_loads_def deep_payload_facts)
  ultimately show ?thesis
    by (simp add: strict_lines strict_events initial_state_def finish_def)
qed

text \<open>
  C7, amended: a stream and the same stream with its noise removed give the same
  fragments and the same outcome, from any state of the decoder, and a noise line only
  makes the loop go on to the next line, where noise is a blank line, a line that decodes
  as UTF-8 to a text without the marker, or a line with the marker whose payload, not
  being the sentinel, makes the parser raise \<open>JSONDecodeError\<close>.
\<close>

theorem noise_does_not_change_the_stream:
  "stream_loop e s (filter (\<lambda>l. \<not> noise e l) ls) = stream_loop e s ls \<and>
   (noise e l \<longrightarrow> process_line e s l = Continue)"
proof
  show "stream_loop e s (filter (\<lambda>l. \<not> noise e l) ls) = stream_loop e s ls"
  proof (induction ls arbitrary: s)
    case Nil
    show ?case by simp
  next
    case (Cons x xs)
    show ?case
    proof (cases "noise e x")
      case True
      then show ?thesis by (simp add: process_line_noise Cons.IH)
    next
      case False
      then show ?thesis
        by (simp add: Cons.IH split: action.splits option.splits)
    qed
  qed
  show "noise e l \<longrightarrow> process_line e s l = Continue"
    by (simp add: process_line_noise)
qed

text \<open>
  A blank line, a comment line and a payload that does not parse, put before, between
  and after the two events of the first scenario, change nothing.
\<close>

theorem noise_does_not_change_the_stream_witness:
  "noise hello_env [] \<and> noise hello_env '': keep-alive'' \<and> noise hello_env ''data: {oops'' \<and>
   filter (\<lambda>l. \<not> noise hello_env l)
     [[], hel_line, '': keep-alive'', ''data: {oops'', lo_line, [], done_line] =
     [hel_line, lo_line, done_line] \<and>
   stream_loop hello_env initial_state
     [[], hel_line, '': keep-alive'', ''data: {oops'', lo_line, [], done_line] =
     stream_loop hello_env initial_state [hel_line, lo_line, done_line] \<and>
   process_line hello_env initial_state ''data: {oops'' = Continue"
proof -
  have n: "noise hello_env []" "noise hello_env '': keep-alive''" "noise hello_env ''data: {oops''"
    "\<not> noise hello_env hel_line" "\<not> noise hello_env lo_line" "\<not> noise hello_env done_line"
    by (simp_all add: hello_env_def kind_defs example_defs)
  then have f: "filter (\<lambda>l. \<not> noise hello_env l)
      [[], hel_line, '': keep-alive'', ''data: {oops'', lo_line, [], done_line] =
      [hel_line, lo_line, done_line]"
    by simp
  from noise_does_not_change_the_stream
    [of hello_env initial_state
        "[[], hel_line, '': keep-alive'', ''data: {oops'', lo_line, [], done_line]"
        "''data: {oops''"]
    n f
  show ?thesis by simp
qed

text \<open>
  C8: a sentinel line ends the decoder with a result: from any state, nothing is yielded
  for it or for the lines after it, and the result holds the content and the citations
  accumulated so far; so a stream with a sentinel in it behaves as the stream cut before
  its first sentinel.
\<close>

theorem sentinel_ends_the_stream:
  assumes "is_sentinel e l"
  shows "stream_loop e s (l # ys) =
           ([], Inr \<lparr>content = JStr (full_content s), citations = cur_citations s\<rparr>) \<and>
         stream_loop e s (xs @ l # ys) = stream_loop e s xs"
proof
  show "stream_loop e s (l # ys) =
          ([], Inr \<lparr>content = JStr (full_content s), citations = cur_citations s\<rparr>)"
    using assms by (simp add: process_line_sentinel finish_def)
  show "stream_loop e s (xs @ l # ys) = stream_loop e s xs"
  proof (induction xs arbitrary: s)
    case Nil
    show ?case using assms by (simp add: process_line_sentinel)
  next
    case (Cons x xs)
    then show ?case by (simp split: action.splits option.splits)
  qed
qed

text \<open>The event after the sentinel is not read: the content stays \<open>Hel\<close>.\<close>

theorem sentinel_ends_the_stream_witness:
  "is_sentinel hello_env done_line \<and>
   stream_loop hello_env initial_state ([hel_line] @ done_line # [lo_line, cit_a_line]) =
     stream_loop hello_env initial_state [hel_line] \<and>
   stream_loop hello_env initial_state ([hel_line] @ done_line # [lo_line, cit_a_line]) =
     ([''Hel''], Inr \<lparr>content = JStr ''Hel'', citations = JArr []\<rparr>)"
proof -
  have d: "is_sentinel hello_env done_line"
    by (simp add: hello_env_def kind_defs example_defs)
  have run: "stream_loop hello_env initial_state [hel_line] =
      ([''Hel''], Inr \<lparr>content = JStr ''Hel'', citations = JArr []\<rparr>)"
    by (simp add: hello_env_def decoder_defs example_defs)
  from sentinel_ends_the_stream [OF d, of initial_state "[lo_line, cit_a_line]" "[hel_line]"] d run
  show ?thesis by simp
qed

section \<open>The non-streaming call\<close>

lemma sync_response_without_choices:
  assumes "post e req = Inr resp" and "raise_for_status resp = Inr ()"
    and "json_body resp = Some (JObj kvs)"
    and "map_of kvs ''choices'' = None \<or> map_of kvs ''choices'' = Some (JArr [])"
  shows "sync_response e req =
           Inr \<lparr>content = JStr [],
                citations = (case map_of kvs ''citations'' of None \<Rightarrow> JArr [] | Some c \<Rightarrow> c)\<rparr>"
proof -
  from assms(4) have "has_choices (JObj kvs) = Inr False"
    by (auto simp: has_choices_obj)
  with assms(1-3) show ?thesis
    by (simp add: sync_response_def)
qed

text \<open>
  C9: when the endpoint answers with a success status and a JSON object that has no
  \<open>choices\<close>, or an empty \<open>choices\<close> array, \<open>_sync_response\<close> returns a result whose content
  is the empty string, with the citations of the body (none when it has none). It does
  not raise.
\<close>

theorem sync_response_empty_content:
  assumes "post e req = Inr resp" and "raise_for_status resp = Inr ()"
    and "json_body resp = Some (JObj kvs)"
    and "map_of kvs ''choices'' = None \<or> map_of kvs ''choices'' = Some (JArr [])"
  shows "\<exists>r. sync_response e req = Inr r \<and> content r = JStr [] \<and>
           citations r = (case map_of kvs ''citations'' of None \<Rightarrow> JArr [] | Some c \<Rightarrow> c)"
  using sync_response_without_choices [OF assms] by simp

theorem sync_response_empty_content_witness:
  "post no_choices_env ex_request = Inr (ok_response [] (Some no_choices_body)) \<and>
   raise_for_status (ok_response [] (Some no_choices_body)) = Inr () \<and>
   map_of [(''citations'', JArr [JStr ''a''])] ''choices'' = None \<and>
   sync_response no_choices_env ex_request =
     Inr \<lparr>content = JStr [], citations = JArr [JStr ''a'']\<rparr>"
proof -
  let ?resp = "ok_response [] (Some no_choices_body)"
  have p: "post no_choices_env ex_request = Inr ?resp"
    by (simp add: no_choices_env_def ex_env_def)
  have st: "raise_for_status ?resp = Inr ()"
    by (simp add: raise_for_status_def ok_response_def)
  have b: "json_body ?resp = Some (JObj [(''citations'', JArr [JStr ''a''])])"
    by (simp add: ok_response_def no_choices_body_def)
  have c: "map_of [(''citations'', JArr [JStr ''a''])] ''choices'' = None \<or>
      map_of [(''citations'', JArr [JStr ''a''])] ''choices'' = Some (JArr [])"
    by simp
  from sync_response_empty_content [OF p st b c] p st show ?thesis by auto
qed

section \<open>Summarizing the history\<close>

lemma mk_message_item:
  "msg_item (mk_message r c) ''role'' = Inr r"
  "msg_item (mk_message r c) ''content'' = Inr c"
  by (simp_all add: msg_item_def mk_message_def)

lemma readd_well_formed:
  "\<forall>m \<in> set ms. \<exists>r c. m = mk_message r c \<Longrightarrow>
   readd sess ms = (sess\<lparr>messages := messages sess @ ms\<rparr>, None)"
proof (induction ms arbitrary: sess)
  case Nil
  show ?case by simp
next
  case (Cons m ms)
  then obtain r c where m: "m = mk_message r c" by auto
  from Cons have "readd (add_message sess r c) ms =
      ((add_message sess r c)\<lparr>messages := messages (add_message sess r c) @ ms\<rparr>, None)"
    by simp
  then show ?case by (simp add: m mk_message_item add_message_def)
qed

lemma split_recent:
  "length recent = 4 \<Longrightarrow> stale \<noteq> [] \<Longrightarrow>
   4 < length (stale @ recent) \<and>
   take (length (stale @ recent) - 4) (stale @ recent) = stale \<and>
   drop (length (stale @ recent) - 4) (stale @ recent) = recent"
  by (cases stale) simp_all

lemma summarize_if_needed_rewrite:
  assumes "messages sess = stale @ recent" and "length recent = 4" and "stale \<noteq> []"
    and "input_token_limit cfg < get_messages_token_count (tiktoken e) (messages sess)"
    and "\<forall>m \<in> set recent. \<exists>r c. m = mk_message r c"
    and "summary_text stale = Inr text"
    and "summarize e a text (model cfg) = Inr summary"
  shows "summarize_if_needed e a cfg sess =
           (sess\<lparr>messages := mk_message ''system'' (summary_prefix @ format_value e summary) # recent,
                 created_at := now e\<rparr>,
            [Summarizing, Summarized], None)"
proof -
  from split_recent [OF assms(2,3)] assms(1)
  have len: "4 < length (messages sess)"
    and tk: "take (length (messages sess) - 4) (messages sess) = stale"
    and dr: "drop (length (messages sess) - 4) (messages sess) = recent"
    by simp_all
  let ?s1 = "add_message (clear e sess) ''system'' (summary_prefix @ format_value e summary)"
  from readd_well_formed [OF assms(5), of ?s1]
  have rd: "readd ?s1 recent =
      (sess\<lparr>messages := mk_message ''system'' (summary_prefix @ format_value e summary) # recent,
            created_at := now e\<rparr>, None)"
    by (simp add: add_message_def clear_def)
  show ?thesis
    unfolding summarize_if_needed_def Let_def get_messages_def tk dr
    using assms(4,6,7) len rd by simp
qed

lemma example_token_count:
  "get_messages_token_count None (ex_stale @ ex_recent) = 12"
  by (simp add: get_messages_token_count_def count_tokens_def get_content_def mk_message_def
      ex_stale_def ex_recent_def)

lemma example_summary_text:
  "summary_text ex_stale = Inr (''user: question'' @ [CHR 0x0A] @ ''assistant: answer 1'')"
  by (simp add: summary_text_def msg_item_def mk_message_def ex_stale_def)

lemma example_recent_shape: "\<forall>m \<in> set ex_recent. \<exists>r c. m = mk_message r c"
  by (auto simp: ex_recent_def)

text \<open>
  C2: a history over the budget, made of a non-empty stale part and the four most
  recent messages (each a role and a content), is replaced, when the summarization call
  returns the summary \<open>S\<close> for the transcript of the stale part, by one system message with
  the content \<open>Previous conversation summary: S\<close> followed by the four recent messages,
  unchanged and in order: five messages. Nothing is raised, and the two progress
  messages are printed.
\<close>

theorem compress_replaces_stale_by_summary:
  assumes "messages sess = stale @ recent" and "length recent = 4" and "stale \<noteq> []"
    and "input_token_limit cfg < get_messages_token_count (tiktoken e) (messages sess)"
    and "\<forall>m \<in> set recent. \<exists>r c. m = mk_message r c"
    and "summary_text stale = Inr text"
    and "summarize e a text (model cfg) = Inr (JStr S)"
  shows "summarize_if_needed e a cfg sess =
           (sess\<lparr>messages :=
                   mk_message ''system'' (''Previous conversation summary: '' @ S) # recent,
                 created_at := now e\<rparr>,
            [Summarizing, Summarized], None) \<and>
         length (messages (fst (summarize_if_needed e a cfg sess))) = 5"
  using summarize_if_needed_rewrite [OF assms] assms(2)
  by (simp add: format_value_def summary_prefix_def)

text \<open>
  The second scenario of the specification: six messages, twelve tokens, a budget of
  ten.
\<close>

theorem compress_replaces_stale_by_summary_witness:
  "length (ex_stale @ ex_recent) = 6 \<and>
   input_token_limit (ex_config 10) <
     get_messages_token_count (tiktoken summary_env) (ex_stale @ ex_recent) \<and>
   summarize summary_env ex_api (''user: question'' @ [CHR 0x0A] @ ''assistant: answer 1'')
     (model (ex_config 10)) = Inr (JStr ''They talked.'') \<and>
   summarize_if_needed summary_env ex_api (ex_config 10) (ex_session (ex_stale @ ex_recent)) =
     (\<lparr>messages =
          mk_message ''system'' ''Previous conversation summary: They talked.'' # ex_recent,
        created_at = ''2024-01-01T00:00:00''\<rparr>,
      [Summarizing, Summarized], None) \<and>
   length (messages (fst (summarize_if_needed summary_env ex_api (ex_config 10)
     (ex_session (ex_stale @ ex_recent))))) = 5"
proof -
  have m: "messages (ex_session (ex_stale @ ex_recent)) = ex_stale @ ex_recent"
    by (simp add: ex_session_def)
  have l4: "length ex_recent = 4" and ne: "ex_stale \<noteq> []" and l6: "length (ex_stale @ ex_recent) = 6"
    by (simp_all add: ex_recent_def ex_stale_def)
  have tk: "tiktoken summary_env = None"
    by (simp add: summary_env_def ex_env_def)
  have over: "input_token_limit (ex_config 10) <
      get_messages_token_count (tiktoken summary_env) (messages (ex_session (ex_stale @ ex_recent)))"
    by (simp add: m tk example_token_count ex_config_def)
  have s: "summarize summary_env ex_api (''user: question'' @ [CHR 0x0A] @ ''assistant: answer 1'')
      (model (ex_config 10)) = Inr (JStr ''They talked.'')"
    by (simp add: summarize_def sync_response_def summary_env_def ex_env_def ok_response_def
        raise_for_status_def summary_body_def has_choices_def first_choice_content_def)
  have n: "now summary_env = ''2024-01-01T00:00:00''"
    by (simp add: summary_env_def ex_env_def)
  from compress_replaces_stale_by_summary
    [OF m l4 ne over example_recent_shape example_summary_text s] l4 l6 over s
  show ?thesis by (simp add: m n ex_session_def)
qed

text \<open>
  C3: when the summarization call fails, with whatever error, the session is the one
  before the call, the failure is printed as a warning, and nothing is raised.
\<close>

theorem summarization_failure_keeps_history:
  assumes "input_token_limit cfg < get_messages_token_count (tiktoken e) (messages sess)"
    and "4 < length (messages sess)"
    and "summary_text (take (length (messages sess) - 4) (messages sess)) = Inr text"
    and "summarize e a text (model cfg) = Inl err"
  shows "summarize_if_needed e a cfg sess = (sess, [Summarizing, Warning err], None)"
  using assms by (simp add: summarize_if_needed_def Let_def get_messages_def)

text \<open>The third scenario of the specification: the connection fails.\<close>

theorem summarization_failure_keeps_history_witness:
  "input_token_limit (ex_config 10) <
     get_messages_token_count (tiktoken offline_env) (ex_stale @ ex_recent) \<and>
   4 < length (ex_stale @ ex_recent) \<and>
   summarize offline_env ex_api (''user: question'' @ [CHR 0x0A] @ ''assistant: answer 1'')
     (model (ex_config 10)) = Inl ConnectionError \<and>
   summarize_if_needed offline_env ex_api (ex_config 10) (ex_session (ex_stale @ ex_recent)) =
     (ex_session (ex_stale @ ex_recent), [Summarizing, Warning ConnectionError], None)"
proof -
  have m: "messages (ex_session (ex_stale @ ex_recent)) = ex_stale @ ex_recent"
    by (simp add: ex_session_def)
  have l4: "length ex_recent = 4" and ne: "ex_stale \<noteq> []"
    by (simp_all add: ex_recent_def ex_stale_def)
  have tk: "tiktoken offline_env = None"
    by (simp add: offline_env_def ex_env_def)
  have over: "input_token_limit (ex_config 10) <
      get_messages_token_count (tiktoken offline_env) (messages (ex_session (ex_stale @ ex_recent)))"
    by (simp add: m tk example_token_count ex_config_def)
  have len: "4 < length (messages (ex_session (ex_stale @ ex_recent)))"
    using split_recent [OF l4 ne] by (simp add: m)
  have st: "summary_text (take (length (messages (ex_session (ex_stale @ ex_recent))) - 4)
      (messages (ex_session (ex_stale @ ex_recent)))) =
      Inr (''user: question'' @ [CHR 0x0A] @ ''assistant: answer 1'')"
    using split_recent [OF l4 ne] example_summary_text by (simp add: m)
  have s: "summarize offline_env ex_api (''user: question'' @ [CHR 0x0A] @ ''assistant: answer 1'')
      (model (ex_config 10)) = Inl ConnectionError"
    by (simp add: summarize_def sync_response_def offline_env_def ex_env_def)
  from summarization_failure_keeps_history [OF over len st s] over len s
  show ?thesis by (simp add: m)
qed

text \<open>
  C4: with at most four messages, or with a token count that does not exceed the budget
  (being equal to it included), \<open>summarize_if_needed\<close> leaves the session as it is, prints
  nothing and raises nothing; no call is made.
\<close>

theorem short_or_within_budget_unchanged:
  assumes "length (messages sess) \<le> 4 \<or>
           get_messages_token_count (tiktoken e) (messages sess) \<le> input_token_limit cfg"
  shows "summarize_if_needed e a cfg sess = (sess, [], None)"
  using assms by (auto simp: summarize_if_needed_def Let_def get_messages_def)

text \<open>
  Six messages of twelve tokens at a budget of exactly twelve, and four messages of
  eight tokens at a budget of zero.
\<close>

theorem short_or_within_budget_unchanged_witness:
  "get_messages_token_count (tiktoken offline_env) (ex_stale @ ex_recent) = 12 \<and>
   summarize_if_needed offline_env ex_api (ex_config 12) (ex_session (ex_stale @ ex_recent)) =
     (ex_session (ex_stale @ ex_recent), [], None) \<and>
   length ex_recent = 4 \<and>
   get_messages_token_count (tiktoken offline_env) ex_recent = 8 \<and>
   summarize_if_needed offline_env ex_api (ex_config 0) (ex_session ex_recent) =
     (ex_session ex_recent, [], None)"
proof -
  have tk: "tiktoken offline_env = None"
    by (simp add: offline_env_def ex_env_def)
  have c12: "get_messages_token_count (tiktoken offline_env) (ex_stale @ ex_recent) = 12"
    by (simp add: tk example_token_count)
  have c8: "get_messages_token_count (tiktoken offline_env) ex_recent = 8"
    by (simp add: tk get_messages_token_count_def count_tokens_def get_content_def
        mk_message_def ex_recent_def)
  have l4: "length ex_recent = 4"
    by (simp add: ex_recent_def)
  have h1: "length (messages (ex_session (ex_stale @ ex_recent))) \<le> 4 \<or>
      get_messages_token_count (tiktoken offline_env) (messages (ex_session (ex_stale @ ex_recent)))
        \<le> input_token_limit (ex_config 12)"
    by (simp add: c12 ex_session_def ex_config_def)
  have h2: "length (messages (ex_session ex_recent)) \<le> 4 \<or>
      get_messages_token_count (tiktoken offline_env) (messages (ex_session ex_recent))
        \<le> input_token_limit (ex_config 0)"
    by (simp add: l4 ex_session_def)
  from short_or_within_budget_unchanged [OF h1, of ex_api]
    short_or_within_budget_unchanged [OF h2, of ex_api] c12 c8 l4
  show ?thesis by simp
qed

text \<open>
  C10: when the summarization call succeeds on a response with no choices (a JSON object
  without \<open>choices\<close>, or with an empty \<open>choices\<close> array), the summary is the empty string
  and the rewrite is made all the same: the stale part is replaced by one system message
  whose content is exactly \<open>Previous conversation summary: \<close>, followed by the four recent
  messages.
\<close>

theorem empty_summary_still_rewrites:
  assumes "messages sess = stale @ recent" and "length recent = 4" and "stale \<noteq> []"
    and "input_token_limit cfg < get_messages_token_count (tiktoken e) (messages sess)"
    and "\<forall>m \<in> set recent. \<exists>r c. m = mk_message r c"
    and "summary_text stale = Inr text"
    and "post e (summarize_request a text (model cfg)) = Inr resp"
    and "raise_for_status resp = Inr ()"
    and "json_body resp = Some (JObj kvs)"
    and "map_of kvs ''choices'' = None \<or> map_of kvs ''choices'' = Some (JArr [])"
  shows "summarize_if_needed e a cfg sess =
           (sess\<lparr>messages := mk_message ''system'' ''Previous conversation summary: '' # recent,
                 created_at := now e\<rparr>,
            [Summarizing, Summarized], None)"
proof -
  from sync_response_without_choices [OF assms(7-10)]
  have "summarize e a text (model cfg) = Inr (JStr [])"
    by (simp add: summarize_def)
  from summarize_if_needed_rewrite [OF assms(1-6) this]
  show ?thesis by (simp add: format_value_def summary_prefix_def)
qed

theorem empty_summary_still_rewrites_witness:
  "input_token_limit (ex_config 10) <
     get_messages_token_count (tiktoken no_choices_env) (ex_stale @ ex_recent) \<and>
   post no_choices_env
     (summarize_request ex_api (''user: question'' @ [CHR 0x0A] @ ''assistant: answer 1'')
        (model (ex_config 10))) = Inr (ok_response [] (Some no_choices_body)) \<and>
   map_of [(''citations'', JArr [JStr ''a''])] ''choices'' = None \<and>
   summarize_if_needed no_choices_env ex_api (ex_config 10) (ex_session (ex_stale @ ex_recent)) =
     (\<lparr>messages = mk_message ''system'' ''Previous conversation summary: '' # ex_recent,
        created_at = ''2024-01-01T00:00:00''\<rparr>,
      [Summarizing, Summarized], None)"
proof -
  let ?resp = "ok_response [] (Some no_choices_body)"
  have m: "messages (ex_session (ex_stale @ ex_recent)) = ex_stale @ ex_recent"
    by (simp add: ex_session_def)
  have l4: "length ex_recent = 4" and ne: "ex_stale \<noteq> []"
    by (simp_all add: ex_recent_def ex_stale_def)
  have tk: "tiktoken no_choices_env = None"
    by (simp add: no_choices_env_def ex_env_def)
  have over: "input_token_limit (ex_config 10) <
      get_messages_token_count (tiktoken no_choices_env)
        (messages (ex_session (ex_stale @ ex_recent)))"
    by (simp add: m tk example_token_count ex_config_def)
  have p: "post no_choices_env
      (summarize_request ex_api (''user: question'' @ [CHR 0x0A] @ ''assistant: answer 1'')
         (model (ex_config 10))) = Inr ?resp"
    by (simp add: no_choices_env_def ex_env_def)
  have st: "raise_for_status ?resp = Inr ()"
    by (simp add: raise_for_status_def ok_response_def)
  have b: "json_body ?resp = Some (JObj [(''citations'', JArr [JStr ''a''])])"
    by (simp add: ok_response_def no_choices_body_def)
  have c: "map_of [(''citations'', JArr [JStr ''a''])] ''choices'' = None \<or>
      map_of [(''citations'', JArr [JStr ''a''])] ''choices'' = Some (JArr [])"
    by simp
  have n: "now no_choices_env = ''2024-01-01T00:00:00''"
    by (simp add: no_choices_env_def ex_env_def)
  from empty_summary_still_rewrites
    [OF m l4 ne over example_recent_shape example_summary_text p st b c] over p
  show ?thesis by (simp add: m n ex_session_def)
qed

end
